theory Spec2Isabelle
  imports Complex_Main
begin

section \<open>PDF Image Merger: the App component\<close>

text \<open>
  A shallow embedding of the React component \<^verbatim>\<open>App\<close>: its four state cells, the two
  drop handlers, the remove button, the effect that revokes preview URLs, and
  \<^verbatim>\<open>handleMergePdf\<close>. The browser (object URLs, downloads, the console) is an explicit
  record that the handlers pass along. The parts of \<^verbatim>\<open>pdf-lib\<close> whose result depends on
  file contents (parsing, image decoding, serialising) are fields of an environment record;
  a field that yields \<open>None\<close> stands for a call that throws. JavaScript numbers are
  modelled as reals: rounding of doubles is not modelled. A handler runs as one step: what
  the user does while \<^verbatim>\<open>handleMergePdf\<close> awaits is not interleaved with it.
\<close>

subsection \<open>Files and component state\<close>

type_synonym bytes = "nat list"
type_synonym url = nat

text \<open>
  A \<^verbatim>\<open>File\<close>: its declared media type (\<^verbatim>\<open>file.type\<close>) and the outcome of
  \<^verbatim>\<open>file.arrayBuffer()\<close>, \<open>None\<close> when the promise rejects.
  \<^verbatim>\<open>interface ImageFile extends File { preview: string }\<close> is the record extension.
\<close>

record File =
  ftype :: string
  fdata :: "bytes option"

record ImageFile = File +
  preview :: url

text \<open>The four \<^verbatim>\<open>useState\<close> cells of the component, with their initial values.\<close>

record app_state =
  pdfFile :: "File option"
  images :: "ImageFile list"
  loading :: bool
  error :: "string option"

definition initial_state :: app_state where
  "initial_state = \<lparr>pdfFile = None, images = [], loading = False, error = None\<rparr>"

subsection \<open>The browser\<close>

datatype exn = ReadFailed | ParseFailed | EmbedFailed | SaveFailed | ClickFailed

text \<open>
  \<open>objectUrls\<close> are the object URLs that are live; \<open>revoked\<close> logs every call of
  \<^verbatim>\<open>URL.revokeObjectURL\<close> in order; \<open>downloads\<close> are the files saved by a click on an
  anchor with a \<^verbatim>\<open>download\<close> attribute (file name and content); \<open>console\<close> logs
  \<^verbatim>\<open>console.error\<close>.
\<close>

record browser =
  nextUrl :: url
  objectUrls :: "url list"
  revoked :: "url list"
  downloads :: "(string \<times> bytes) list"
  console :: "exn list"

definition initial_browser :: browser where
  "initial_browser = \<lparr>nextUrl = 0, objectUrls = [], revoked = [], downloads = [], console = []\<rparr>"

definition createObjectURL :: "browser \<Rightarrow> url \<times> browser" where
  "createObjectURL w =
     (nextUrl w, w\<lparr>nextUrl := Suc (nextUrl w), objectUrls := objectUrls w @ [nextUrl w]\<rparr>)"

definition revokeObjectURL :: "url \<Rightarrow> browser \<Rightarrow> browser" where
  "revokeObjectURL u w =
     w\<lparr>objectUrls := removeAll u (objectUrls w), revoked := revoked w @ [u]\<rparr>"

subsection \<open>Drop handlers\<close>

definition startsWith :: "string \<Rightarrow> string \<Rightarrow> bool" where
  "startsWith s p = (take (length p) s = p)"

text \<open>\<^verbatim>\<open>onPdfDrop\<close>: only \<^verbatim>\<open>acceptedFiles[0]\<close> is looked at.\<close>

fun onPdfDrop :: "File list \<Rightarrow> app_state \<Rightarrow> app_state" where
  "onPdfDrop [] s = s\<lparr>error := Some ''Please upload a valid PDF file''\<rparr>"
| "onPdfDrop (f # rest) s =
     (if ftype f = ''application/pdf''
      then s\<lparr>pdfFile := Some f, error := None\<rparr>
      else s\<lparr>error := Some ''Please upload a valid PDF file''\<rparr>)"

text \<open>
  \<^verbatim>\<open>.map(file => Object.assign(file, { preview: URL.createObjectURL(file) }))\<close>:
  one fresh object URL per file, in order.
\<close>

fun assign_previews :: "File list \<Rightarrow> browser \<Rightarrow> ImageFile list \<times> browser" where
  "assign_previews [] w = ([], w)"
| "assign_previews (f # fs) w =
     (case createObjectURL w of (u, w1) \<Rightarrow>
        (case assign_previews fs w1 of (rest, w2) \<Rightarrow>
           (\<lparr>ftype = ftype f, fdata = fdata f, preview = u\<rparr> # rest, w2)))"

definition onImagesDrop :: "File list \<Rightarrow> app_state \<times> browser \<Rightarrow> app_state \<times> browser" where
  "onImagesDrop acceptedFiles sw =
     (case sw of (s, w) \<Rightarrow>
        (case assign_previews (filter (\<lambda>f. startsWith (ftype f) ''image/'') acceptedFiles) w of
           (imageFiles, w1) \<Rightarrow> (s\<lparr>images := images s @ imageFiles, error := None\<rparr>, w1)))"

subsection \<open>The remove button and the preview effect\<close>

text \<open>
  The remove button of the preview at \<open>index\<close>:
  \<^verbatim>\<open>setImages(images.filter((_, i) => i !== index))\<close>.
\<close>

definition removeImage :: "nat \<Rightarrow> app_state \<Rightarrow> app_state" where
  "removeImage index s =
     s\<lparr>images := map snd (filter (\<lambda>p. fst p \<noteq> index) (enumerate 0 (images s)))\<rparr>"

text \<open>
  The cleanup of \<^verbatim>\<open>useEffect(() => { return () => images.forEach(image =>
  URL.revokeObjectURL(image.preview)); }, [images])\<close>, over the \<^verbatim>\<open>images\<close> array of the
  render that registered it.
\<close>

definition images_cleanup :: "ImageFile list \<Rightarrow> browser \<Rightarrow> browser" where
  "images_cleanup imgs w = fold (\<lambda>img. revokeObjectURL (preview img)) imgs w"

subsection \<open>The pdf-lib document\<close>

datatype image_format = Jpeg | Png

record PDFImage =
  img_format :: image_format
  img_width :: real
  img_height :: real

text \<open>One \<^verbatim>\<open>page.drawImage(image, { x, y, width, height })\<close>.\<close>

record drawn =
  d_image :: PDFImage
  d_x :: real
  d_y :: real
  d_width :: real
  d_height :: real

record PDFPage =
  page_width :: real
  page_height :: real
  page_drawn :: "drawn list"

record PDFDocument =
  pages :: "PDFPage list"
  embedded :: "PDFImage list"

text \<open>
  What the component cannot decide by itself: \<open>parse\<close> is \<^verbatim>\<open>PDFDocument.load\<close>,
  \<open>decodeJpg\<close> and \<open>decodePng\<close> give the natural width and height that
  \<^verbatim>\<open>embedJpg\<close> and \<^verbatim>\<open>embedPng\<close> read from the bytes, \<open>serialize\<close> is
  \<^verbatim>\<open>pdfDoc.save()\<close>; each is \<open>None\<close> where the call throws. \<open>defaultPageSize\<close> is
  the size \<^verbatim>\<open>addPage()\<close> gives a page when called with no argument, and
  \<open>clickCompletes\<close> tells whether \<^verbatim>\<open>link.click()\<close> returns (the download starts)
  or throws.
\<close>

record env =
  parse :: "bytes \<Rightarrow> PDFDocument option"
  decodeJpg :: "bytes \<Rightarrow> (real \<times> real) option"
  decodePng :: "bytes \<Rightarrow> (real \<times> real) option"
  serialize :: "PDFDocument \<Rightarrow> bytes option"
  defaultPageSize :: "real \<times> real"
  clickCompletes :: bool

definition embedJpg :: "env \<Rightarrow> bytes \<Rightarrow> PDFDocument \<Rightarrow> (PDFImage \<times> PDFDocument) option" where
  "embedJpg e b doc =
     (case decodeJpg e b of
        None \<Rightarrow> None
      | Some (w, h) \<Rightarrow>
          Some (\<lparr>img_format = Jpeg, img_width = w, img_height = h\<rparr>,
                doc\<lparr>embedded := embedded doc @ [\<lparr>img_format = Jpeg, img_width = w, img_height = h\<rparr>]\<rparr>))"

definition embedPng :: "env \<Rightarrow> bytes \<Rightarrow> PDFDocument \<Rightarrow> (PDFImage \<times> PDFDocument) option" where
  "embedPng e b doc =
     (case decodePng e b of
        None \<Rightarrow> None
      | Some (w, h) \<Rightarrow>
          Some (\<lparr>img_format = Png, img_width = w, img_height = h\<rparr>,
                doc\<lparr>embedded := embedded doc @ [\<lparr>img_format = Png, img_width = w, img_height = h\<rparr>]\<rparr>))"

text \<open>\<^verbatim>\<open>pdfDoc.addPage()\<close>: the new page is the last one; its index is returned.\<close>

definition addPage :: "env \<Rightarrow> PDFDocument \<Rightarrow> nat \<times> PDFDocument" where
  "addPage e doc =
     (length (pages doc),
      doc\<lparr>pages := pages doc @
        [\<lparr>page_width = fst (defaultPageSize e), page_height = snd (defaultPageSize e),
          page_drawn = []\<rparr>]\<rparr>)"

definition getSize :: "nat \<Rightarrow> PDFDocument \<Rightarrow> real \<times> real" where
  "getSize page doc = (page_width (pages doc ! page), page_height (pages doc ! page))"

text \<open>\<^verbatim>\<open>image.scale(factor)\<close>: both natural dimensions times the factor.\<close>

definition scale :: "PDFImage \<Rightarrow> real \<Rightarrow> real \<times> real" where
  "scale img factor = (img_width img * factor, img_height img * factor)"

definition drawImage :: "nat \<Rightarrow> drawn \<Rightarrow> PDFDocument \<Rightarrow> PDFDocument" where
  "drawImage page d doc =
     doc\<lparr>pages := (pages doc)[page :=
       (pages doc ! page)\<lparr>page_drawn := page_drawn (pages doc ! page) @ [d]\<rparr>]\<rparr>"

subsection \<open>The merge\<close>

text \<open>Lines 72 to 81 of the loop body: the new page and the centred image.\<close>

definition draw_on_new_page :: "env \<Rightarrow> PDFImage \<Rightarrow> PDFDocument \<Rightarrow> PDFDocument" where
  "draw_on_new_page e img pdfDoc =
     (case addPage e pdfDoc of (page, doc1) \<Rightarrow>
        (case getSize page doc1 of (width, height) \<Rightarrow>
           (case scale img 0.8 of (sw, sh) \<Rightarrow>
              drawImage page
                \<lparr>d_image = img, d_x = (width - sw) / 2, d_y = (height - sh) / 2,
                  d_width = sw, d_height = sh\<rparr> doc1)))"

text \<open>One iteration of \<^verbatim>\<open>for (const imageFile of images)\<close>; the last branch is \<^verbatim>\<open>continue\<close>.\<close>

definition merge_image :: "env \<Rightarrow> ImageFile \<Rightarrow> PDFDocument \<Rightarrow> exn + PDFDocument" where
  "merge_image e imageFile pdfDoc =
     (case fdata imageFile of
        None \<Rightarrow> Inl ReadFailed
      | Some imageBytes \<Rightarrow>
          if ftype imageFile = ''image/jpeg'' then
            (case embedJpg e imageBytes pdfDoc of
               None \<Rightarrow> Inl EmbedFailed
             | Some (img, doc1) \<Rightarrow> Inr (draw_on_new_page e img doc1))
          else if ftype imageFile = ''image/png'' then
            (case embedPng e imageBytes pdfDoc of
               None \<Rightarrow> Inl EmbedFailed
             | Some (img, doc1) \<Rightarrow> Inr (draw_on_new_page e img doc1))
          else Inr pdfDoc)"

fun merge_images :: "env \<Rightarrow> ImageFile list \<Rightarrow> PDFDocument \<Rightarrow> exn + PDFDocument" where
  "merge_images e [] pdfDoc = Inr pdfDoc"
| "merge_images e (imageFile # rest) pdfDoc =
     (case merge_image e imageFile pdfDoc of
        Inl err \<Rightarrow> Inl err
      | Inr doc1 \<Rightarrow> merge_images e rest doc1)"

text \<open>Lines 57 to 84: read, parse, the loop, serialise.\<close>

definition build_pdf :: "env \<Rightarrow> File \<Rightarrow> ImageFile list \<Rightarrow> exn + bytes" where
  "build_pdf e f imgs =
     (case fdata f of
        None \<Rightarrow> Inl ReadFailed
      | Some pdfBytes \<Rightarrow>
          (case parse e pdfBytes of
             None \<Rightarrow> Inl ParseFailed
           | Some pdfDoc \<Rightarrow>
               (case merge_images e imgs pdfDoc of
                  Inl err \<Rightarrow> Inl err
                | Inr doc1 \<Rightarrow>
                    (case serialize e doc1 of
                       None \<Rightarrow> Inl SaveFailed
                     | Some mergedPdfBytes \<Rightarrow> Inr mergedPdfBytes))))"

text \<open>
  Lines 85 to 94: the object URL of the blob, the click on the temporary anchor, the
  revocation. A click that throws leaves the rest of the block unexecuted.
\<close>

definition download :: "env \<Rightarrow> bytes \<Rightarrow> browser \<Rightarrow> exn option \<times> browser" where
  "download e mergedPdfBytes w =
     (case createObjectURL w of (u, w1) \<Rightarrow>
        if clickCompletes e
        then (None, revokeObjectURL u
                (w1\<lparr>downloads := downloads w1 @ [(''merged-document.pdf'', mergedPdfBytes)]\<rparr>))
        else (Some ClickFailed, w1))"

text \<open>
  \<^verbatim>\<open>try { body } catch (err) { handler } finally { fin }\<close> over a state: each part
  returns the exception it throws, if any, and the state it leaves.
\<close>

definition try_catch_finally ::
  "('s \<Rightarrow> exn option \<times> 's) \<Rightarrow> (exn \<Rightarrow> 's \<Rightarrow> exn option \<times> 's) \<Rightarrow> ('s \<Rightarrow> exn option \<times> 's) \<Rightarrow>
   's \<Rightarrow> exn option \<times> 's" where
  "try_catch_finally body handler fin s =
     (case body s of (r1, s1) \<Rightarrow>
        (case (case r1 of None \<Rightarrow> (None, s1) | Some err \<Rightarrow> handler err s1) of (r2, s2) \<Rightarrow>
           (case fin s2 of (r3, s3) \<Rightarrow>
              (case r3 of None \<Rightarrow> (r2, s3) | Some err \<Rightarrow> (Some err, s3)))))"

definition merge_try ::
  "env \<Rightarrow> File \<Rightarrow> ImageFile list \<Rightarrow> app_state \<times> browser \<Rightarrow> exn option \<times> app_state \<times> browser" where
  "merge_try e f imgs sw =
     (case sw of (s, w) \<Rightarrow>
        (case build_pdf e f imgs of
           Inl err \<Rightarrow> (Some err, (s\<lparr>loading := True, error := None\<rparr>, w))
         | Inr mergedPdfBytes \<Rightarrow>
             (case download e mergedPdfBytes w of (r, w1) \<Rightarrow>
                (r, (s\<lparr>loading := True, error := None\<rparr>, w1)))))"

definition merge_catch :: "exn \<Rightarrow> app_state \<times> browser \<Rightarrow> exn option \<times> app_state \<times> browser" where
  "merge_catch err sw =
     (case sw of (s, w) \<Rightarrow>
        (None, (s\<lparr>error := Some ''Error processing PDF. Please try again.''\<rparr>,
                w\<lparr>console := console w @ [err]\<rparr>)))"

definition merge_finally :: "app_state \<times> browser \<Rightarrow> exn option \<times> app_state \<times> browser" where
  "merge_finally sw = (case sw of (s, w) \<Rightarrow> (None, (s\<lparr>loading := False\<rparr>, w)))"

text \<open>
  \<^verbatim>\<open>handleMergePdf\<close>: the first component of the result is the exception that leaves
  the handler, if any.
\<close>

definition handleMergePdf :: "env \<Rightarrow> app_state \<times> browser \<Rightarrow> exn option \<times> app_state \<times> browser" where
  "handleMergePdf e sw =
     (case sw of (s, w) \<Rightarrow>
        (case pdfFile s of
           None \<Rightarrow> (None, (s\<lparr>error := Some ''Please upload both a PDF and at least one image''\<rparr>, w))
         | Some f \<Rightarrow>
             if images s = []
             then (None, (s\<lparr>error := Some ''Please upload both a PDF and at least one image''\<rparr>, w))
             else try_catch_finally (merge_try e f (images s)) merge_catch merge_finally (s, w)))"

subsection \<open>The component under React\<close>

text \<open>
  What the user can do, and what React does after it. \<^verbatim>\<open>setImages\<close> is always given a
  new array, so after an image drop and after a click on a remove button the dependency
  \<^verbatim>\<open>[images]\<close> of the effect has changed and React runs the cleanup the previous
  render registered, over the previous array; on unmount it runs the last cleanup.
  The merge button is disabled while \<^verbatim>\<open>loading || !pdfFile || images.length === 0\<close>,
  and a preview has a remove button only when it exists.
\<close>

datatype ui_event =
    DropPdf "File list"
  | DropImages "File list"
  | ClickRemove nat
  | ClickMerge
  | Unmount

fun react :: "env \<Rightarrow> ui_event \<Rightarrow> app_state \<times> browser \<Rightarrow> app_state \<times> browser" where
  "react e (DropPdf fs) (s, w) = (onPdfDrop fs s, w)"
| "react e (DropImages fs) (s, w) =
     (case onImagesDrop fs (s, w) of (s1, w1) \<Rightarrow> (s1, images_cleanup (images s) w1))"
| "react e (ClickRemove index) (s, w) =
     (if index < length (images s)
      then (removeImage index s, images_cleanup (images s) w)
      else (s, w))"
| "react e ClickMerge (s, w) =
     (if loading s \<or> pdfFile s = None \<or> images s = []
      then (s, w)
      else snd (handleMergePdf e (s, w)))"
| "react e Unmount (s, w) = (s, images_cleanup (images s) w)"

subsection \<open>The specification's reading of a merged page\<close>

text \<open>
  The two definitions below follow the specification's words and are compared with the
  code: the resource an entry of the working set embeds (JPEG as a JPEG resource, PNG as
  a PNG resource, nothing otherwise), and the page the specification describes for an
  embedded image: of the given size, with the image drawn once at 0.8 of its natural
  dimensions, the offsets being half of what the page leaves over.
\<close>

definition spec_image :: "env \<Rightarrow> ImageFile \<Rightarrow> PDFImage option" where
  "spec_image e imageFile =
     (case fdata imageFile of
        None \<Rightarrow> None
      | Some b \<Rightarrow>
          if ftype imageFile = ''image/jpeg''
          then map_option (\<lambda>d. \<lparr>img_format = Jpeg, img_width = fst d, img_height = snd d\<rparr>)
                 (decodeJpg e b)
          else if ftype imageFile = ''image/png''
          then map_option (\<lambda>d. \<lparr>img_format = Png, img_width = fst d, img_height = snd d\<rparr>)
                 (decodePng e b)
          else None)"

definition spec_page :: "real \<times> real \<Rightarrow> PDFImage \<Rightarrow> PDFPage" where
  "spec_page sz img =
     \<lparr>page_width = fst sz, page_height = snd sz,
      page_drawn =
        [\<lparr>d_image = img,
          d_x = (fst sz - img_width img * 0.8) / 2,
          d_y = (snd sz - img_height img * 0.8) / 2,
          d_width = img_width img * 0.8,
          d_height = img_height img * 0.8\<rparr>]\<rparr>"

text \<open>An entry of the working set without its preview: the file that was dropped.\<close>

definition file_of :: "ImageFile \<Rightarrow> File" where
  "file_of imageFile = \<lparr>ftype = ftype imageFile, fdata = fdata imageFile\<rparr>"

subsection \<open>Example inputs\<close>

text \<open>
  A one-page PDF, a 100 by 50 PNG, a 200 by 100 JPEG and a GIF; an environment that parses
  and decodes exactly these, with A4 as the size of a new page; the same environment with
  a click that throws.
\<close>

definition example_pdf :: File where
  "example_pdf = \<lparr>ftype = ''application/pdf'', fdata = Some [37, 80, 68, 70]\<rparr>"

definition example_png :: File where
  "example_png = \<lparr>ftype = ''image/png'', fdata = Some [137, 80]\<rparr>"

definition example_jpg :: File where
  "example_jpg = \<lparr>ftype = ''image/jpeg'', fdata = Some [255, 216]\<rparr>"

definition example_gif :: File where
  "example_gif = \<lparr>ftype = ''image/gif'', fdata = Some [71, 73]\<rparr>"

definition example_doc :: PDFDocument where
  "example_doc =
     \<lparr>pages = [\<lparr>page_width = 612, page_height = 792, page_drawn = []\<rparr>], embedded = []\<rparr>"

definition example_env :: env where
  "example_env =
     \<lparr>parse = (\<lambda>b. if b = [37, 80, 68, 70] then Some example_doc else None),
      decodeJpg = (\<lambda>b. if b = [255, 216] then Some (200, 100) else None),
      decodePng = (\<lambda>b. if b = [137, 80] then Some (100, 50) else None),
      serialize = (\<lambda>d. Some [length (pages d), length (embedded d)]),
      defaultPageSize = (595.28, 841.89),
      clickCompletes = True\<rparr>"

definition example_env_click_throws :: env where
  "example_env_click_throws = example_env\<lparr>clickCompletes := False\<rparr>"

definition example_images :: "ImageFile list" where
  "example_images =
     [\<lparr>ftype = ''image/png'', fdata = Some [137, 80], preview = 0\<rparr>,
      \<lparr>ftype = ''image/jpeg'', fdata = Some [255, 216], preview = 1\<rparr>]"

definition example_merged :: PDFDocument where
  "example_merged =
     \<lparr>pages =
        [\<lparr>page_width = 612, page_height = 792, page_drawn = []\<rparr>,
         \<lparr>page_width = 595.28, page_height = 841.89,
          page_drawn =
            [\<lparr>d_image = \<lparr>img_format = Png, img_width = 100, img_height = 50\<rparr>,
              d_x = 257.64, d_y = 400.945, d_width = 80, d_height = 40\<rparr>]\<rparr>,
         \<lparr>page_width = 595.28, page_height = 841.89,
          page_drawn =
            [\<lparr>d_image = \<lparr>img_format = Jpeg, img_width = 200, img_height = 100\<rparr>,
              d_x = 217.64, d_y = 380.945, d_width = 160, d_height = 80\<rparr>]\<rparr>],
      embedded =
        [\<lparr>img_format = Png, img_width = 100, img_height = 50\<rparr>,
         \<lparr>img_format = Jpeg, img_width = 200, img_height = 100\<rparr>]\<rparr>"

definition example_unreadable_pdf :: File where
  "example_unreadable_pdf = \<lparr>ftype = ''application/pdf'', fdata = None\<rparr>"

definition example_browser :: browser where
  "example_browser =
     \<lparr>nextUrl = 2, objectUrls = [0, 1], revoked = [], downloads = [], console = []\<rparr>"

definition example_state :: app_state where
  "example_state =
     \<lparr>pdfFile = Some example_pdf, images = example_images, loading = False, error = None\<rparr>"

section \<open>Properties\<close>

subsection \<open>Auxiliary facts\<close>

lemmas pdf_lib_defs = embedJpg_def embedPng_def addPage_def getSize_def scale_def drawImage_def
  draw_on_new_page_def

lemmas merge_defs = handleMergePdf_def try_catch_finally_def merge_try_def merge_catch_def
  merge_finally_def download_def createObjectURL_def revokeObjectURL_def

lemma assign_previews_files: "map file_of (fst (assign_previews fs w)) = fs"
proof (induction fs arbitrary: w)
  case Nil
  show ?case by simp
next
  case (Cons f fs)
  obtain u w1 where c: "createObjectURL w = (u, w1)"
    by (cases "createObjectURL w")
  obtain rest w2 where r: "assign_previews fs w1 = (rest, w2)"
    by (cases "assign_previews fs w1")
  from Cons.IH [of w1] r have "map file_of rest = fs" by simp
  moreover have "file_of \<lparr>ftype = ftype f, fdata = fdata f, preview = u\<rparr> = f"
    by (simp add: file_of_def)
  ultimately show ?case using c r by simp
qed

lemma draw_on_new_page_pages:
  "draw_on_new_page e img doc = doc\<lparr>pages := pages doc @ [spec_page (defaultPageSize e) img]\<rparr>"
  by (simp add: draw_on_new_page_def addPage_def getSize_def scale_def drawImage_def spec_page_def)

lemma merge_image_pages:
  "merge_image e i doc = Inr doc' \<Longrightarrow>
   pages doc' = pages doc @ map (spec_page (defaultPageSize e)) (List.map_filter (spec_image e) [i])
   \<and> embedded doc' = embedded doc @ List.map_filter (spec_image e) [i]"
  by (auto simp: merge_image_def spec_image_def embedJpg_def embedPng_def draw_on_new_page_pages
        List.map_filter_simps split: option.splits if_splits prod.splits)

lemma map_filter_append:
  "List.map_filter f (xs @ ys) = List.map_filter f xs @ List.map_filter f ys"
  by (simp add: List.map_filter_def)

lemma merge_images_pages:
  "merge_images e imgs doc = Inr doc' \<Longrightarrow>
   pages doc' = pages doc @ map (spec_page (defaultPageSize e)) (List.map_filter (spec_image e) imgs)
   \<and> embedded doc' = embedded doc @ List.map_filter (spec_image e) imgs"
proof (induction imgs arbitrary: doc)
  case Nil
  then show ?case by (simp add: List.map_filter_simps)
next
  case (Cons i imgs)
  from Cons.prems obtain d
    where s: "merge_image e i doc = Inr d" and r: "merge_images e imgs d = Inr doc'"
    by (auto split: sum.splits)
  have "List.map_filter (spec_image e) (i # imgs) =
        List.map_filter (spec_image e) [i] @ List.map_filter (spec_image e) imgs"
    using map_filter_append [of "spec_image e" "[i]" imgs] by simp
  with merge_image_pages [OF s] Cons.IH [OF r] show ?case by simp
qed

lemma merge_images_append:
  "merge_images e (xs @ ys) doc =
     (case merge_images e xs doc of Inl err \<Rightarrow> Inl err | Inr d \<Rightarrow> merge_images e ys d)"
  by (induction xs arbitrary: doc) (auto split: sum.splits)

lemma merge_image_other:
  "ftype i \<noteq> ''image/jpeg'' \<Longrightarrow> ftype i \<noteq> ''image/png'' \<Longrightarrow>
   merge_image e i doc = (case fdata i of None \<Rightarrow> Inl ReadFailed | Some b \<Rightarrow> Inr doc)"
  by (simp add: merge_image_def split: option.splits)

lemma merge_images_filter:
  "\<forall>i\<in>set imgs. fdata i \<noteq> None \<Longrightarrow>
   merge_images e imgs doc =
   merge_images e (filter (\<lambda>i. ftype i = ''image/jpeg'' \<or> ftype i = ''image/png'') imgs) doc"
proof (induction imgs arbitrary: doc)
  case Nil
  show ?case by simp
next
  case (Cons i imgs)
  then show ?case
    by (cases "ftype i = ''image/jpeg'' \<or> ftype i = ''image/png''")
       (auto simp: merge_image_other split: sum.splits option.splits)
qed

lemma merge_images_all_skipped:
  "\<forall>j\<in>set imgs. fdata j \<noteq> None \<and> ftype j \<noteq> ''image/jpeg'' \<and> ftype j \<noteq> ''image/png'' \<Longrightarrow>
   merge_images e imgs doc = Inr doc"
  by (induction imgs) (auto simp: merge_image_other)

lemma build_pdf_Inr:
  "build_pdf e f imgs = Inr out \<longleftrightarrow>
    (\<exists>pdfBytes doc doc'. fdata f = Some pdfBytes \<and> parse e pdfBytes = Some doc \<and>
        merge_images e imgs doc = Inr doc' \<and> serialize e doc' = Some out)"
  by (auto simp: build_pdf_def split: option.splits sum.splits)

lemma handleMergePdf_downloads:
  "downloads (snd (snd (handleMergePdf e (s, w)))) =
     (case pdfFile s of
        None \<Rightarrow> downloads w
      | Some f \<Rightarrow>
          if images s = [] then downloads w
          else (case build_pdf e f (images s) of
                  Inl err \<Rightarrow> downloads w
                | Inr out \<Rightarrow>
                    if clickCompletes e then downloads w @ [(''merged-document.pdf'', out)]
                    else downloads w))"
  by (simp add: merge_defs split: option.splits sum.splits)

lemma example_merge_images:
  "merge_images example_env example_images example_doc = Inr example_merged"
  by (simp add: example_env_def example_images_def example_doc_def example_merged_def
        merge_image_def pdf_lib_defs)

lemma example_merge_images_click_throws:
  "merge_images example_env_click_throws example_images example_doc = Inr example_merged"
  by (simp add: example_env_click_throws_def example_env_def example_images_def example_doc_def
        example_merged_def merge_image_def pdf_lib_defs)

lemma example_build_pdf: "build_pdf example_env example_pdf example_images = Inr [3, 2]"
proof -
  have "fdata example_pdf = Some [37, 80, 68, 70]"
    by (simp add: example_pdf_def)
  moreover have "parse example_env [37, 80, 68, 70] = Some example_doc"
    by (simp add: example_env_def)
  moreover have "serialize example_env example_merged = Some [3, 2]"
    by (simp add: example_env_def example_merged_def)
  ultimately show ?thesis
    by (simp add: build_pdf_def example_merge_images)
qed

lemma example_build_pdf_click_throws:
  "build_pdf example_env_click_throws example_pdf example_images = Inr [3, 2]"
proof -
  have "fdata example_pdf = Some [37, 80, 68, 70]"
    by (simp add: example_pdf_def)
  moreover have "parse example_env_click_throws [37, 80, 68, 70] = Some example_doc"
    by (simp add: example_env_def example_env_click_throws_def)
  moreover have "serialize example_env_click_throws example_merged = Some [3, 2]"
    by (simp add: example_env_def example_env_click_throws_def example_merged_def)
  ultimately show ?thesis
    by (simp add: build_pdf_def example_merge_images_click_throws)
qed

subsection \<open>The claims\<close>

text \<open>
  C1. Every image that a merge embeds gets exactly one new page, appended after the pages
  the document already has, of the size \<^verbatim>\<open>addPage()\<close> gives by default (not of the
  image's size), and is drawn on it once at 0.8 of its natural width and height, at the
  offsets (page width - scaled width) / 2 and (page height - scaled height) / 2. The
  pages the document had are unchanged, and the new pages come in the order of the
  working set. In the example a one-page PDF, a PNG and a JPEG give three pages.
\<close>

theorem C1_one_centred_page_per_embedded_image:
  assumes "merge_images e imgs doc = Inr doc'"
  shows "pages doc' =
           pages doc @ map (spec_page (defaultPageSize e)) (List.map_filter (spec_image e) imgs)"
  using merge_images_pages [OF assms] by simp

theorem C1_witness:
  "merge_images example_env example_images example_doc = Inr example_merged \<and>
   length (pages example_merged) = 3 \<and>
   pages example_merged =
     pages example_doc @
       [spec_page (595.28, 841.89) \<lparr>img_format = Png, img_width = 100, img_height = 50\<rparr>,
        spec_page (595.28, 841.89) \<lparr>img_format = Jpeg, img_width = 200, img_height = 100\<rparr>]"
proof -
  have m: "merge_images example_env example_images example_doc = Inr example_merged"
    by (rule example_merge_images)
  have d: "defaultPageSize example_env = (595.28, 841.89)"
    by (simp add: example_env_def)
  have f: "List.map_filter (spec_image example_env) example_images =
          [\<lparr>img_format = Png, img_width = 100, img_height = 50\<rparr>,
           \<lparr>img_format = Jpeg, img_width = 200, img_height = 100\<rparr>]"
    by (simp add: List.map_filter_simps spec_image_def example_images_def example_env_def)
  have "pages example_merged =
          pages example_doc @
            map (spec_page (defaultPageSize example_env))
              (List.map_filter (spec_image example_env) example_images)"
    by (rule C1_one_centred_page_per_embedded_image [OF m])
  then have "pages example_merged =
     pages example_doc @
       [spec_page (595.28, 841.89) \<lparr>img_format = Png, img_width = 100, img_height = 50\<rparr>,
        spec_page (595.28, 841.89) \<lparr>img_format = Jpeg, img_width = 200, img_height = 100\<rparr>]"
    unfolding d f by simp
  moreover have "length (pages example_merged) = 3"
    by (simp add: example_merged_def)
  ultimately show ?thesis using m by blast
qed

text \<open>
  C2. One iteration of the merge loop dispatches on the declared media type of the entry,
  once its bytes are read: \<^verbatim>\<open>image/jpeg\<close> goes to the JPEG decoder and registers a
  JPEG resource, \<^verbatim>\<open>image/png\<close> goes to the PNG decoder and registers a PNG resource,
  and each gets its page; every other media type leaves the document as it is (no page, no
  resource) and is no failure. The only failure an entry of another type can cause is that
  of the read that comes before the dispatch. The loop over an empty set returns the
  document as it is, and it takes the entries in the order of the working set: the entries
  before an entry first, then the entry on the document they left, then the rest, stopping at
  the first failure. A set of readable entries that are all of other types goes through the
  loop with no failure and no change to the document, and where every entry is readable the
  entries of other types can be deleted from the set without changing the outcome of the loop.
\<close>

theorem C2_dispatch_on_media_type:
  "(ftype i = ''image/jpeg'' \<longrightarrow>
      merge_image e i doc =
        (case fdata i of
           None \<Rightarrow> Inl ReadFailed
         | Some b \<Rightarrow>
             (case decodeJpg e b of
                None \<Rightarrow> Inl EmbedFailed
              | Some (w, h) \<Rightarrow>
                  Inr (doc\<lparr>pages := pages doc @
                             [spec_page (defaultPageSize e)
                                \<lparr>img_format = Jpeg, img_width = w, img_height = h\<rparr>],
                           embedded := embedded doc @
                             [\<lparr>img_format = Jpeg, img_width = w, img_height = h\<rparr>]\<rparr>)))) \<and>
   (ftype i = ''image/png'' \<longrightarrow>
      merge_image e i doc =
        (case fdata i of
           None \<Rightarrow> Inl ReadFailed
         | Some b \<Rightarrow>
             (case decodePng e b of
                None \<Rightarrow> Inl EmbedFailed
              | Some (w, h) \<Rightarrow>
                  Inr (doc\<lparr>pages := pages doc @
                             [spec_page (defaultPageSize e)
                                \<lparr>img_format = Png, img_width = w, img_height = h\<rparr>],
                           embedded := embedded doc @
                             [\<lparr>img_format = Png, img_width = w, img_height = h\<rparr>]\<rparr>)))) \<and>
   (ftype i \<noteq> ''image/jpeg'' \<and> ftype i \<noteq> ''image/png'' \<longrightarrow>
      merge_image e i doc = (case fdata i of None \<Rightarrow> Inl ReadFailed | Some b \<Rightarrow> Inr doc)) \<and>
   merge_images e [] doc = Inr doc \<and>
   merge_images e (xs @ i # ys) doc =
     (case merge_images e xs doc of
        Inl err \<Rightarrow> Inl err
      | Inr d \<Rightarrow>
          (case merge_image e i d of Inl err \<Rightarrow> Inl err | Inr d' \<Rightarrow> merge_images e ys d')) \<and>
   ((\<forall>j\<in>set imgs. fdata j \<noteq> None) \<longrightarrow>
      merge_images e imgs doc =
      merge_images e (filter (\<lambda>j. ftype j = ''image/jpeg'' \<or> ftype j = ''image/png'') imgs) doc) \<and>
   ((\<forall>j\<in>set imgs. fdata j \<noteq> None \<and> ftype j \<noteq> ''image/jpeg'' \<and> ftype j \<noteq> ''image/png'') \<longrightarrow>
      merge_images e imgs doc = Inr doc)"
proof -
  have jpg: "ftype i = ''image/jpeg'' \<longrightarrow>
      merge_image e i doc =
        (case fdata i of
           None \<Rightarrow> Inl ReadFailed
         | Some b \<Rightarrow>
             (case decodeJpg e b of
                None \<Rightarrow> Inl EmbedFailed
              | Some (w, h) \<Rightarrow>
                  Inr (doc\<lparr>pages := pages doc @
                             [spec_page (defaultPageSize e)
                                \<lparr>img_format = Jpeg, img_width = w, img_height = h\<rparr>],
                           embedded := embedded doc @
                             [\<lparr>img_format = Jpeg, img_width = w, img_height = h\<rparr>]\<rparr>)))"
    by (simp add: merge_image_def embedJpg_def draw_on_new_page_pages split: option.splits)
  have png: "ftype i = ''image/png'' \<longrightarrow>
      merge_image e i doc =
        (case fdata i of
           None \<Rightarrow> Inl ReadFailed
         | Some b \<Rightarrow>
             (case decodePng e b of
                None \<Rightarrow> Inl EmbedFailed
              | Some (w, h) \<Rightarrow>
                  Inr (doc\<lparr>pages := pages doc @
                             [spec_page (defaultPageSize e)
                                \<lparr>img_format = Png, img_width = w, img_height = h\<rparr>],
                           embedded := embedded doc @
                             [\<lparr>img_format = Png, img_width = w, img_height = h\<rparr>]\<rparr>)))"
    by (simp add: merge_image_def embedPng_def draw_on_new_page_pages split: option.splits)
  have other: "ftype i \<noteq> ''image/jpeg'' \<and> ftype i \<noteq> ''image/png'' \<longrightarrow>
      merge_image e i doc = (case fdata i of None \<Rightarrow> Inl ReadFailed | Some b \<Rightarrow> Inr doc)"
    by (simp add: merge_image_other)
  have ord: "merge_images e (xs @ i # ys) doc =
     (case merge_images e xs doc of
        Inl err \<Rightarrow> Inl err
      | Inr d \<Rightarrow>
          (case merge_image e i d of Inl err \<Rightarrow> Inl err | Inr d' \<Rightarrow> merge_images e ys d'))"
    by (simp add: merge_images_append split: sum.splits)
  have skip: "(\<forall>j\<in>set imgs. fdata j \<noteq> None) \<longrightarrow>
      merge_images e imgs doc =
      merge_images e (filter (\<lambda>j. ftype j = ''image/jpeg'' \<or> ftype j = ''image/png'') imgs) doc"
    using merge_images_filter [of imgs e doc] by blast
  have base: "merge_images e [] doc = Inr doc"
    by simp
  have none: "(\<forall>j\<in>set imgs. fdata j \<noteq> None \<and> ftype j \<noteq> ''image/jpeg'' \<and>
        ftype j \<noteq> ''image/png'') \<longrightarrow>
      merge_images e imgs doc = Inr doc"
    using merge_images_all_skipped [of imgs e doc] by blast
  from jpg png other base ord skip none show ?thesis by blast
qed

theorem C2_witness:
  "merge_image example_env \<lparr>ftype = ''image/gif'', fdata = Some [71, 73], preview = 2\<rparr> example_doc
     = Inr example_doc \<and>
   merge_image example_env \<lparr>ftype = ''image/jpeg'', fdata = Some [255, 216], preview = 1\<rparr> example_doc
     = Inr (example_doc\<lparr>pages := pages example_doc @
              [spec_page (595.28, 841.89) \<lparr>img_format = Jpeg, img_width = 200, img_height = 100\<rparr>],
            embedded := embedded example_doc @
              [\<lparr>img_format = Jpeg, img_width = 200, img_height = 100\<rparr>]\<rparr>) \<and>
   merge_images example_env
     [\<lparr>ftype = ''image/gif'', fdata = Some [71, 73], preview = 2\<rparr>,
      \<lparr>ftype = ''image/jpeg'', fdata = Some [255, 216], preview = 1\<rparr>] example_doc
     = Inr (example_doc\<lparr>pages := pages example_doc @
              [spec_page (595.28, 841.89) \<lparr>img_format = Jpeg, img_width = 200, img_height = 100\<rparr>],
            embedded := embedded example_doc @
              [\<lparr>img_format = Jpeg, img_width = 200, img_height = 100\<rparr>]\<rparr>) \<and>
   merge_images example_env
     [\<lparr>ftype = ''image/gif'', fdata = Some [71, 73], preview = 2\<rparr>,
      \<lparr>ftype = ''image/gif'', fdata = Some [71, 73], preview = 3\<rparr>] example_doc
     = Inr example_doc \<and>
   merge_images example_env
     [\<lparr>ftype = ''image/jpeg'', fdata = Some [0], preview = 4\<rparr>,
      \<lparr>ftype = ''image/gif'', fdata = Some [71, 73], preview = 2\<rparr>] example_doc
     = Inl EmbedFailed"
proof -
  let ?gif = "\<lparr>ftype = ''image/gif'', fdata = Some [71, 73], preview = 2\<rparr>"
  let ?gif2 = "\<lparr>ftype = ''image/gif'', fdata = Some [71, 73], preview = 3\<rparr>"
  let ?jpg = "\<lparr>ftype = ''image/jpeg'', fdata = Some [255, 216], preview = 1\<rparr>"
  let ?bad = "\<lparr>ftype = ''image/jpeg'', fdata = Some [0], preview = 4\<rparr>"
  let ?out = "example_doc\<lparr>pages := pages example_doc @
              [spec_page (595.28, 841.89) \<lparr>img_format = Jpeg, img_width = 200, img_height = 100\<rparr>],
            embedded := embedded example_doc @
              [\<lparr>img_format = Jpeg, img_width = 200, img_height = 100\<rparr>]\<rparr>"
  have gif: "merge_image example_env ?gif example_doc = Inr example_doc"
    using C2_dispatch_on_media_type [where i = ?gif and e = example_env and doc = example_doc]
    by simp
  have jpg: "merge_image example_env ?jpg example_doc = Inr ?out"
    using C2_dispatch_on_media_type [where i = ?jpg and e = example_env and doc = example_doc]
    by (simp add: example_env_def)
  have bad: "merge_image example_env ?bad example_doc = Inl EmbedFailed"
    using C2_dispatch_on_media_type [where i = ?bad and e = example_env and doc = example_doc]
    by (simp add: example_env_def)
  have base: "merge_images example_env [] example_doc = Inr example_doc"
    using C2_dispatch_on_media_type [where e = example_env and doc = example_doc]
    by blast
  have base_out: "merge_images example_env [] ?out = Inr ?out"
    using C2_dispatch_on_media_type [where e = example_env and doc = ?out]
    by blast
  have one: "merge_images example_env [?jpg] example_doc = Inr ?out"
    using C2_dispatch_on_media_type
      [where i = ?jpg and e = example_env and doc = example_doc and xs = "[]" and ys = "[]"]
      base jpg base_out
    by simp
  have two: "merge_images example_env [?gif, ?jpg] example_doc = Inr ?out"
    using C2_dispatch_on_media_type
      [where i = ?gif and e = example_env and doc = example_doc and xs = "[]" and ys = "[?jpg]"]
      base gif one
    by simp
  have gifs: "merge_images example_env [?gif, ?gif2] example_doc = Inr example_doc"
    using C2_dispatch_on_media_type
      [where e = example_env and doc = example_doc and imgs = "[?gif, ?gif2]"]
    by simp
  have stop: "merge_images example_env [?bad, ?gif] example_doc = Inl EmbedFailed"
    using C2_dispatch_on_media_type
      [where i = ?bad and e = example_env and doc = example_doc and xs = "[]" and ys = "[?gif]"]
      base bad
    by simp
  from gif jpg two gifs stop show ?thesis by blast
qed

text \<open>
  C3. When no PDF is selected or the working set is empty, \<^verbatim>\<open>handleMergePdf\<close> returns
  at once: it sets the error to the missing-input message and changes nothing else. The
  busy flag keeps its value (it is never set), the browser is as before (no object URL,
  no download, nothing logged), and the result does not depend on the environment: no
  file is read, nothing is parsed or embedded.
\<close>

theorem C3_missing_input_aborts:
  assumes "pdfFile s = None \<or> images s = []"
  shows "handleMergePdf e (s, w) =
           (None, (s\<lparr>error := Some ''Please upload both a PDF and at least one image''\<rparr>, w))"
  using assms by (auto simp: handleMergePdf_def split: option.splits)

theorem C3_witness:
  "handleMergePdf example_env (example_state\<lparr>images := []\<rparr>, initial_browser) =
     (None,
      (\<lparr>pdfFile = Some example_pdf, images = [], loading = False,
        error = Some ''Please upload both a PDF and at least one image''\<rparr>,
       initial_browser))"
  using C3_missing_input_aborts [of "example_state\<lparr>images := []\<rparr>" example_env initial_browser]
  by (simp add: example_state_def)

text \<open>
  C4. No exception leaves \<^verbatim>\<open>handleMergePdf\<close>. When the merge starts (a PDF is selected
  and the working set is not empty) the busy flag is false at the end, whatever happened;
  a failure of the read, the parse, an embed or the serialisation sets the error to the one
  generic message and logs the exception to the console; so does a click that throws; a merge
  without failure leaves no error. When the merge does not start, the busy flag is as it
  was, so a component that was idle is idle afterwards on every path.
\<close>

theorem C4_failures_caught_and_idle_again:
  assumes "handleMergePdf e (s, w) = (r, (s', w'))"
  shows "r = None \<and> (\<not> loading s \<longrightarrow> \<not> loading s') \<and>
    (\<forall>f. pdfFile s = Some f \<and> images s \<noteq> [] \<longrightarrow>
       \<not> loading s' \<and>
       (\<forall>err. build_pdf e f (images s) = Inl err \<longrightarrow>
          error s' = Some ''Error processing PDF. Please try again.'' \<and>
          console w' = console w @ [err]) \<and>
       (\<forall>out. build_pdf e f (images s) = Inr out \<longrightarrow>
          (if clickCompletes e
           then error s' = None \<and> console w' = console w
           else error s' = Some ''Error processing PDF. Please try again.'' \<and>
                console w' = console w @ [ClickFailed])))"
  using assms by (auto simp: merge_defs split: option.splits sum.splits if_splits)

theorem C4_witness:
  "fst (handleMergePdf example_env
          (example_state\<lparr>pdfFile := Some example_unreadable_pdf\<rparr>, initial_browser)) = None \<and>
   \<not> loading (fst (snd (handleMergePdf example_env
          (example_state\<lparr>pdfFile := Some example_unreadable_pdf\<rparr>, initial_browser)))) \<and>
   error (fst (snd (handleMergePdf example_env
          (example_state\<lparr>pdfFile := Some example_unreadable_pdf\<rparr>, initial_browser)))) =
     Some ''Error processing PDF. Please try again.'' \<and>
   console (snd (snd (handleMergePdf example_env
          (example_state\<lparr>pdfFile := Some example_unreadable_pdf\<rparr>, initial_browser)))) =
     [ReadFailed]"
proof -
  obtain r s' w' where h:
    "handleMergePdf example_env
       (example_state\<lparr>pdfFile := Some example_unreadable_pdf\<rparr>, initial_browser) = (r, (s', w'))"
    by (metis prod_cases3)
  have p: "pdfFile (example_state\<lparr>pdfFile := Some example_unreadable_pdf\<rparr>) =
             Some example_unreadable_pdf"
    by simp
  have i: "images (example_state\<lparr>pdfFile := Some example_unreadable_pdf\<rparr>) \<noteq> []"
    by (simp add: example_state_def example_images_def)
  have b: "build_pdf example_env example_unreadable_pdf
             (images (example_state\<lparr>pdfFile := Some example_unreadable_pdf\<rparr>)) = Inl ReadFailed"
    by (simp add: build_pdf_def example_unreadable_pdf_def)
  have c: "console initial_browser = []"
    by (simp add: initial_browser_def)
  from C4_failures_caught_and_idle_again [OF h] p i b c
  have "r = None \<and> \<not> loading s' \<and>
        error s' = Some ''Error processing PDF. Please try again.'' \<and> console w' = [ReadFailed]"
    by simp
  with h show ?thesis by simp
qed

text \<open>
  C5. A merge saves a file only after the whole document has been serialised: either the
  downloads are as they were, or the PDF was read and parsed, the loop ran over the whole
  working set without failure, the serialisation of the resulting document succeeded, and the
  one file saved is \<^verbatim>\<open>merged-document.pdf\<close> with exactly these bytes. A failure of the
  read, the parse, an embed or the serialisation leaves the downloads as they were.
\<close>

theorem C5_download_only_after_serialisation:
  assumes "handleMergePdf e (s, w) = (r, (s', w'))"
  shows "(downloads w' = downloads w \<or>
      (\<exists>f pdfBytes doc doc' out. pdfFile s = Some f \<and> fdata f = Some pdfBytes \<and>
          parse e pdfBytes = Some doc \<and> merge_images e (images s) doc = Inr doc' \<and>
          serialize e doc' = Some out \<and>
          downloads w' = downloads w @ [(''merged-document.pdf'', out)])) \<and>
    (\<forall>f err. pdfFile s = Some f \<and> build_pdf e f (images s) = Inl err \<longrightarrow>
        downloads w' = downloads w)"
proof -
  have d: "downloads w' = downloads (snd (snd (handleMergePdf e (s, w))))"
    using assms by simp
  have "downloads w' = downloads w \<or>
      (\<exists>f pdfBytes doc doc' out. pdfFile s = Some f \<and> fdata f = Some pdfBytes \<and>
          parse e pdfBytes = Some doc \<and> merge_images e (images s) doc = Inr doc' \<and>
          serialize e doc' = Some out \<and>
          downloads w' = downloads w @ [(''merged-document.pdf'', out)])"
    unfolding d handleMergePdf_downloads
    by (auto simp: build_pdf_Inr split: option.splits sum.splits)
  moreover have "\<forall>f err. pdfFile s = Some f \<and> build_pdf e f (images s) = Inl err \<longrightarrow>
      downloads w' = downloads w"
    unfolding d handleMergePdf_downloads by auto
  ultimately show ?thesis by blast
qed

theorem C5_witness:
  "build_pdf example_env (example_pdf\<lparr>fdata := Some [0]\<rparr>) example_images = Inl ParseFailed \<and>
   downloads (snd (snd (handleMergePdf example_env
     (example_state\<lparr>pdfFile := Some (example_pdf\<lparr>fdata := Some [0]\<rparr>)\<rparr>, initial_browser)))) = []"
proof -
  obtain r s' w' where h:
    "handleMergePdf example_env
       (example_state\<lparr>pdfFile := Some (example_pdf\<lparr>fdata := Some [0]\<rparr>)\<rparr>, initial_browser) =
     (r, (s', w'))"
    by (metis prod_cases3)
  have b: "build_pdf example_env (example_pdf\<lparr>fdata := Some [0]\<rparr>) example_images = Inl ParseFailed"
    by (simp add: build_pdf_def example_env_def)
  have p: "pdfFile (example_state\<lparr>pdfFile := Some (example_pdf\<lparr>fdata := Some [0]\<rparr>)\<rparr>) =
             Some (example_pdf\<lparr>fdata := Some [0]\<rparr>)"
    by simp
  have i: "images (example_state\<lparr>pdfFile := Some (example_pdf\<lparr>fdata := Some [0]\<rparr>)\<rparr>) =
             example_images"
    by (simp add: example_state_def)
  from C5_download_only_after_serialisation [OF h] p i b
  have "downloads w' = downloads initial_browser"
    by simp
  then have "downloads w' = []"
    by (simp add: initial_browser_def)
  with h b show ?thesis by simp
qed

text \<open>
  C6. A PDF drop whose batch is non-empty and whose first file has media type exactly
  \<^verbatim>\<open>application/pdf\<close> replaces the selected PDF by that file and clears the error;
  every other drop leaves the selected PDF as it was and sets the error to the
  invalid-PDF message. Nothing else of the state changes.
\<close>

theorem C6_onPdfDrop:
  "onPdfDrop acceptedFiles s =
     (if acceptedFiles \<noteq> [] \<and> ftype (hd acceptedFiles) = ''application/pdf''
      then s\<lparr>pdfFile := Some (hd acceptedFiles), error := None\<rparr>
      else s\<lparr>error := Some ''Please upload a valid PDF file''\<rparr>)"
  by (cases acceptedFiles) simp_all

theorem C6_witness:
  "onPdfDrop [example_pdf, example_png] (initial_state\<lparr>error := Some ''old''\<rparr>) =
     \<lparr>pdfFile = Some example_pdf, images = [], loading = False, error = None\<rparr> \<and>
   onPdfDrop [example_png, example_pdf] example_state =
     \<lparr>pdfFile = Some example_pdf, images = example_images, loading = False,
      error = Some ''Please upload a valid PDF file''\<rparr> \<and>
   onPdfDrop [] example_state =
     \<lparr>pdfFile = Some example_pdf, images = example_images, loading = False,
      error = Some ''Please upload a valid PDF file''\<rparr>"
  using C6_onPdfDrop [of "[example_pdf, example_png]" "initial_state\<lparr>error := Some ''old''\<rparr>"]
    C6_onPdfDrop [of "[example_png, example_pdf]" example_state]
    C6_onPdfDrop [of "[]" example_state]
  by (simp add: initial_state_def example_state_def example_pdf_def example_png_def)

text \<open>
  C7. After an image drop the working set is the set before the drop followed by one new
  entry for each dropped file whose media type starts with \<^verbatim>\<open>image/\<close>, in the order
  of the drop: the entries that were there are untouched and come first, and nothing is
  deduplicated. Each new entry is the dropped file with a preview URL.
\<close>

theorem C7_image_drop_appends_filtered:
  "images (fst (onImagesDrop acceptedFiles (s, w))) =
     images s @
       fst (assign_previews (filter (\<lambda>f. startsWith (ftype f) ''image/'') acceptedFiles) w) \<and>
   map file_of (images (fst (onImagesDrop acceptedFiles (s, w)))) =
     map file_of (images s) @ filter (\<lambda>f. startsWith (ftype f) ''image/'') acceptedFiles"
  by (cases "assign_previews (filter (\<lambda>f. startsWith (ftype f) ''image/'') acceptedFiles) w")
     (use assign_previews_files [of "filter (\<lambda>f. startsWith (ftype f) ''image/'') acceptedFiles" w]
       in \<open>simp add: onImagesDrop_def\<close>)

theorem C7_witness:
  "map file_of (images (fst (onImagesDrop [example_pdf, example_png, example_gif, example_png]
      (example_state, example_browser)))) =
     [example_png, example_jpg, example_png, example_gif, example_png]"
proof -
  have f: "filter (\<lambda>f. startsWith (ftype f) ''image/'')
             [example_pdf, example_png, example_gif, example_png] =
           [example_png, example_gif, example_png]"
    by (simp add: startsWith_def example_pdf_def example_png_def example_gif_def)
  have m: "map file_of (images example_state) = [example_png, example_jpg]"
    by (simp add: example_state_def example_images_def file_of_def example_png_def example_jpg_def)
  have "map file_of (images (fst (onImagesDrop [example_pdf, example_png, example_gif, example_png]
      (example_state, example_browser)))) =
     map file_of (images example_state) @
       filter (\<lambda>f. startsWith (ftype f) ''image/'')
         [example_pdf, example_png, example_gif, example_png]"
    by (rule conjunct2 [OF C7_image_drop_appends_filtered])
  then show ?thesis unfolding f m by simp
qed

text \<open>
  C8 does not hold of the component. The cleanup of the preview effect runs whenever the
  working set changes, over the whole previous set. After a PNG is dropped and then a
  JPEG, the PNG is still in the working set with preview URL 0, and URL 0 has been revoked:
  only URL 1 is registered. A click on the remove button of the second entry then revokes
  URL 0 a second time, together with URL 1, and the first entry is still in the set.
\<close>

theorem C8_preview_revoked_while_entry_present:
  "react example_env (DropImages [example_jpg])
     (react example_env (DropImages [example_png]) (initial_state, initial_browser)) =
     (\<lparr>pdfFile = None,
       images =
         [\<lparr>ftype = ''image/png'', fdata = Some [137, 80], preview = 0\<rparr>,
          \<lparr>ftype = ''image/jpeg'', fdata = Some [255, 216], preview = 1\<rparr>],
       loading = False, error = None\<rparr>,
      \<lparr>nextUrl = 2, objectUrls = [1], revoked = [0], downloads = [], console = []\<rparr>) \<and>
   react example_env (ClickRemove 1)
     (react example_env (DropImages [example_jpg])
        (react example_env (DropImages [example_png]) (initial_state, initial_browser))) =
     (\<lparr>pdfFile = None,
       images = [\<lparr>ftype = ''image/png'', fdata = Some [137, 80], preview = 0\<rparr>],
       loading = False, error = None\<rparr>,
      \<lparr>nextUrl = 2, objectUrls = [], revoked = [0, 0, 1], downloads = [], console = []\<rparr>)"
proof -
  have one: "react example_env (DropImages [example_png]) (initial_state, initial_browser) =
     (\<lparr>pdfFile = None,
       images = [\<lparr>ftype = ''image/png'', fdata = Some [137, 80], preview = 0\<rparr>],
       loading = False, error = None\<rparr>,
      \<lparr>nextUrl = 1, objectUrls = [0], revoked = [], downloads = [], console = []\<rparr>)"
    by (simp add: onImagesDrop_def startsWith_def createObjectURL_def images_cleanup_def
          initial_state_def initial_browser_def example_png_def)
  have two: "react example_env (DropImages [example_jpg])
     (\<lparr>pdfFile = None,
       images = [\<lparr>ftype = ''image/png'', fdata = Some [137, 80], preview = 0\<rparr>],
       loading = False, error = None\<rparr>,
      \<lparr>nextUrl = 1, objectUrls = [0], revoked = [], downloads = [], console = []\<rparr>) =
     (\<lparr>pdfFile = None,
       images =
         [\<lparr>ftype = ''image/png'', fdata = Some [137, 80], preview = 0\<rparr>,
          \<lparr>ftype = ''image/jpeg'', fdata = Some [255, 216], preview = 1\<rparr>],
       loading = False, error = None\<rparr>,
      \<lparr>nextUrl = 2, objectUrls = [1], revoked = [0], downloads = [], console = []\<rparr>)"
    by (simp add: onImagesDrop_def startsWith_def createObjectURL_def revokeObjectURL_def
          images_cleanup_def example_jpg_def)
  have three: "react example_env (ClickRemove 1)
     (\<lparr>pdfFile = None,
       images =
         [\<lparr>ftype = ''image/png'', fdata = Some [137, 80], preview = 0\<rparr>,
          \<lparr>ftype = ''image/jpeg'', fdata = Some [255, 216], preview = 1\<rparr>],
       loading = False, error = None\<rparr>,
      \<lparr>nextUrl = 2, objectUrls = [1], revoked = [0], downloads = [], console = []\<rparr>) =
     (\<lparr>pdfFile = None,
       images = [\<lparr>ftype = ''image/png'', fdata = Some [137, 80], preview = 0\<rparr>],
       loading = False, error = None\<rparr>,
      \<lparr>nextUrl = 2, objectUrls = [], revoked = [0, 0, 1], downloads = [], console = []\<rparr>)"
    by (simp add: removeImage_def revokeObjectURL_def images_cleanup_def)
  show ?thesis unfolding one two three by simp
qed

text \<open>
  C9, as amended. In a merge that reaches the download step, the object URL made for the
  download is the only one made, and it is revoked, once and right after the click, when the
  click on the temporary anchor completes. When the click throws, the rest of the block is
  not executed: the URL is not revoked and stays registered (the exception goes to the
  catch block of the merge).
\<close>

theorem C9_save_url_released_when_click_completes:
  assumes "pdfFile s = Some f" and "images s \<noteq> []"
    and "build_pdf e f (images s) = Inr out"
    and "handleMergePdf e (s, w) = (r, (s', w'))"
  shows "nextUrl w' = Suc (nextUrl w) \<and>
    (if clickCompletes e
     then revoked w' = revoked w @ [nextUrl w] \<and>
          objectUrls w' = removeAll (nextUrl w) (objectUrls w)
     else revoked w' = revoked w \<and> objectUrls w' = objectUrls w @ [nextUrl w])"
  using assms by (auto simp: merge_defs split: option.splits sum.splits if_splits)

theorem C9_witness:
  "revoked (snd (snd (handleMergePdf example_env (example_state, example_browser)))) = [2] \<and>
   objectUrls (snd (snd (handleMergePdf example_env (example_state, example_browser)))) = [0, 1]"
proof -
  obtain r s' w' where h:
    "handleMergePdf example_env (example_state, example_browser) = (r, (s', w'))"
    by (metis prod_cases3)
  have p: "pdfFile example_state = Some example_pdf"
    by (simp add: example_state_def)
  have i: "images example_state \<noteq> []"
    by (simp add: example_state_def example_images_def)
  have b: "build_pdf example_env example_pdf (images example_state) = Inr [3, 2]"
    by (simp add: example_state_def example_build_pdf)
  have c: "clickCompletes example_env"
    by (simp add: example_env_def)
  from C9_save_url_released_when_click_completes [OF p i b h] c
  have "revoked w' = revoked example_browser @ [nextUrl example_browser] \<and>
        objectUrls w' = removeAll (nextUrl example_browser) (objectUrls example_browser)"
    by simp
  then have "revoked w' = [2] \<and> objectUrls w' = [0, 1]"
    by (simp add: example_browser_def)
  with h show ?thesis by simp
qed

text \<open>
  C9, as the specification has it, fails where the click throws: the merge below reaches the
  download step (the document serialises to the bytes 3, 2), the object URL 2 is made for
  the download, and at the end it is still registered and was never revoked.
\<close>

theorem C9_counterexample:
  "build_pdf example_env_click_throws example_pdf example_images = Inr [3, 2] \<and>
   handleMergePdf example_env_click_throws (example_state, example_browser) =
     (None,
      (\<lparr>pdfFile = Some example_pdf, images = example_images, loading = False,
        error = Some ''Error processing PDF. Please try again.''\<rparr>,
       \<lparr>nextUrl = 3, objectUrls = [0, 1, 2], revoked = [], downloads = [],
        console = [ClickFailed]\<rparr>))"
proof -
  have b: "build_pdf example_env_click_throws example_pdf example_images = Inr [3, 2]"
    by (rule example_build_pdf_click_throws)
  have c: "\<not> clickCompletes example_env_click_throws"
    by (simp add: example_env_click_throws_def)
  have p: "pdfFile example_state = Some example_pdf" "images example_state = example_images"
    by (simp_all add: example_state_def)
  have n: "example_images \<noteq> []"
    by (simp add: example_images_def)
  have "handleMergePdf example_env_click_throws (example_state, example_browser) =
     (None,
      (\<lparr>pdfFile = Some example_pdf, images = example_images, loading = False,
        error = Some ''Error processing PDF. Please try again.''\<rparr>,
       \<lparr>nextUrl = 3, objectUrls = [0, 1, 2], revoked = [], downloads = [],
        console = [ClickFailed]\<rparr>))"
    using b c n by (simp add: merge_defs p) (simp add: example_state_def example_browser_def)
  with b show ?thesis by blast
qed

text \<open>
  C10. Every image drop clears the error, whatever was dropped: also a drop in which no file
  has an image media type, which adds nothing to the working set and reports nothing.
\<close>

theorem C10_image_drop_clears_error:
  "error (fst (onImagesDrop acceptedFiles (s, w))) = None"
  by (simp add: onImagesDrop_def split: prod.splits)

theorem C10_witness:
  "error (fst (onImagesDrop [example_pdf] (example_state\<lparr>error := Some ''old''\<rparr>, example_browser)))
     = None \<and>
   images (fst (onImagesDrop [example_pdf] (example_state\<lparr>error := Some ''old''\<rparr>, example_browser)))
     = example_images"
proof -
  have "images (fst (onImagesDrop [example_pdf]
          (example_state\<lparr>error := Some ''old''\<rparr>, example_browser))) = example_images"
    by (simp add: onImagesDrop_def startsWith_def example_pdf_def example_state_def)
  with C10_image_drop_clears_error
    [of "[example_pdf]" "example_state\<lparr>error := Some ''old''\<rparr>" example_browser]
  show ?thesis by simp
qed

end
